theory Spec2Isabelle
  imports Complex_Main "HOL-Library.Sublist"
begin

section \<open>JavaScript values\<close>

text \<open>
  A JavaScript \<^verbatim>\<open>number\<close>. Only the distinctions the code makes are kept: the test
  \<^verbatim>\<open>isNaN\<close>, truthiness, and whether JSON can carry the value. The finite values are
  taken as reals: no claim computes with them.
\<close>

datatype jsnum = NaN | PosInfinity | NegInfinity | Finite real

text \<open>
  The values the code handles: what \<^verbatim>\<open>response.json()\<close> delivers, what is read from a
  property, and \<^verbatim>\<open>undefined\<close>. An object is the list of its own properties; the first
  binding of a key is the property's value.
\<close>

datatype jsval =
    JUndefined
  | JNull
  | JBool bool
  | JNum jsnum
  | JStr string
  | JArr "jsval list"
  | JObj "(string \<times> jsval) list"

text \<open>A thrown value: an \<^verbatim>\<open>Error\<close> instance with its message, or anything else.\<close>

datatype thrown = JsError string | NonError jsval

fun isNaN :: "jsnum \<Rightarrow> bool" where
  "isNaN NaN = True"
| "isNaN _ = False"

text \<open>\<^verbatim>\<open>Array.isArray(v)\<close>.\<close>

fun isArray :: "jsval \<Rightarrow> bool" where
  "isArray (JArr _) = True"
| "isArray _ = False"

text \<open>\<^verbatim>\<open>typeof v\<close>.\<close>

fun typeof :: "jsval \<Rightarrow> string" where
  "typeof JUndefined = ''undefined''"
| "typeof JNull = ''object''"
| "typeof (JBool _) = ''boolean''"
| "typeof (JNum _) = ''number''"
| "typeof (JStr _) = ''string''"
| "typeof (JArr _) = ''object''"
| "typeof (JObj _) = ''object''"

text \<open>The conversion to boolean of \<^verbatim>\<open>&&\<close>, \<^verbatim>\<open>||\<close> and \<^verbatim>\<open>if\<close>.\<close>

fun truthy :: "jsval \<Rightarrow> bool" where
  "truthy JUndefined = False"
| "truthy JNull = False"
| "truthy (JBool b) = b"
| "truthy (JNum NaN) = False"
| "truthy (JNum (Finite r)) = (r \<noteq> 0)"
| "truthy (JNum _) = True"
| "truthy (JStr s) = (s \<noteq> [])"
| "truthy (JArr _) = True"
| "truthy (JObj _) = True"

text \<open>
  The message of the \<^verbatim>\<open>TypeError\<close> of a property read on \<^verbatim>\<open>null\<close> or
  \<^verbatim>\<open>undefined\<close> (the wording of V8; no theorem depends on it).
\<close>

definition cannot_read :: "string \<Rightarrow> string \<Rightarrow> string" where
  "cannot_read what k =
     ''Cannot read properties of '' @ what @ '' (reading '' @ [CHR 0x27] @ k @ [CHR 0x27] @ '')''"

text \<open>
  The property \<^verbatim>\<open>v.k\<close> of a value other than \<^verbatim>\<open>null\<close> and \<^verbatim>\<open>undefined\<close>, for
  the keys the code reads (\<^verbatim>\<open>boundaries\<close>, \<^verbatim>\<open>message\<close>, \<^verbatim>\<open>buildings\<close>,
  \<^verbatim>\<open>data\<close>, \<^verbatim>\<open>results\<close>): none of them is a property of a built-in prototype, so
  a primitive or an array has none of them.
\<close>

fun member :: "jsval \<Rightarrow> string \<Rightarrow> jsval" where
  "member (JObj kvs) k = (case map_of kvs k of Some v \<Rightarrow> v | None \<Rightarrow> JUndefined)"
| "member _ k = JUndefined"

text \<open>The property read \<^verbatim>\<open>v.k\<close>: a \<^verbatim>\<open>TypeError\<close> on \<^verbatim>\<open>null\<close> and \<^verbatim>\<open>undefined\<close>.\<close>

fun getProp :: "jsval \<Rightarrow> string \<Rightarrow> thrown + jsval" where
  "getProp JUndefined k = Inl (JsError (cannot_read ''undefined'' k))"
| "getProp JNull k = Inl (JsError (cannot_read ''null'' k))"
| "getProp v k = Inr (member v k)"

section \<open>The response normalizer of \<^verbatim>\<open>loadBuildings\<close> (lib/api/buildings.ts)\<close>

text \<open>
  Lines 23 to 37 of \<^verbatim>\<open>loadBuildings\<close>: what the function returns for the parsed
  response body \<^verbatim>\<open>data\<close>.
\<close>

definition normalizeBuildings :: "jsval \<Rightarrow> jsval" where
  "normalizeBuildings data =
     (if isArray data then data
      else if truthy data \<and> typeof data = ''object'' then
        (if isArray (member data ''buildings'') then member data ''buildings''
         else if isArray (member data ''data'') then member data ''data''
         else if isArray (member data ''results'') then member data ''results''
         else JArr [])
      else JArr [])"

text \<open>
  The normalizer as the specification words it: a sequence is returned unchanged; a keyed
  object gives the first sequence found under \<^verbatim>\<open>buildings\<close>, \<^verbatim>\<open>data\<close>,
  \<^verbatim>\<open>results\<close>, in that order; anything else gives the empty sequence.
\<close>

fun first_array :: "(string \<times> jsval) list \<Rightarrow> string list \<Rightarrow> jsval" where
  "first_array kvs [] = JArr []"
| "first_array kvs (k # ks) =
     (case map_of kvs k of
        Some (JArr xs) \<Rightarrow> JArr xs
      | _ \<Rightarrow> first_array kvs ks)"

fun normalizer_spec :: "jsval \<Rightarrow> jsval" where
  "normalizer_spec (JArr xs) = JArr xs"
| "normalizer_spec (JObj kvs) = first_array kvs [''buildings'', ''data'', ''results'']"
| "normalizer_spec _ = JArr []"

section \<open>JSON text, the transport and the browser\<close>

text \<open>
  What \<^verbatim>\<open>JSON.parse(JSON.stringify(v))\<close> gives for a value inside an array or an object:
  a number that is not finite becomes \<^verbatim>\<open>null\<close>, \<^verbatim>\<open>undefined\<close> becomes \<^verbatim>\<open>null\<close> in
  an array and its property is left out of an object.
\<close>

fun jsonify :: "jsval \<Rightarrow> jsval" and jsonify_elems :: "jsval list \<Rightarrow> jsval list"
  and jsonify_props :: "(string \<times> jsval) list \<Rightarrow> (string \<times> jsval) list" where
  "jsonify (JNum (Finite r)) = JNum (Finite r)"
| "jsonify (JNum _) = JNull"
| "jsonify (JArr xs) = JArr (jsonify_elems xs)"
| "jsonify (JObj kvs) = JObj (jsonify_props kvs)"
| "jsonify v = v"
| "jsonify_elems [] = []"
| "jsonify_elems (x # xs) = (if x = JUndefined then JNull else jsonify x) # jsonify_elems xs"
| "jsonify_props [] = []"
| "jsonify_props ((k, v) # kvs) =
     (if v = JUndefined then jsonify_props kvs else (k, jsonify v) # jsonify_props kvs)"

text \<open>
  A string that is parsed as JSON: the text of a value (kept as the value
  \<^verbatim>\<open>JSON.parse\<close> reads from it), or a text that \<^verbatim>\<open>JSON.parse\<close> rejects.
\<close>

datatype json_text = JsonText jsval | OtherText string

text \<open>\<^verbatim>\<open>JSON.stringify(v)\<close>: \<^verbatim>\<open>undefined\<close> (here \<open>None\<close>) for \<^verbatim>\<open>undefined\<close>.\<close>

definition JSON_stringify :: "jsval \<Rightarrow> json_text option" where
  "JSON_stringify v = (if v = JUndefined then None else Some (JsonText (jsonify v)))"

fun JSON_parse :: "json_text \<Rightarrow> thrown + jsval" where
  "JSON_parse (JsonText v) = Inr v"
| "JSON_parse (OtherText s) = Inl (JsError ''Unexpected token in JSON'')"

text \<open>The body of a request: none, a string, or a \<^verbatim>\<open>FormData\<close> with its file entries.\<close>

datatype 'f body = NoBody | TextBody "json_text option" | FormData "(string \<times> 'f) list"

text \<open>A request: the URL and the options of \<^verbatim>\<open>fetch\<close> (\<open>http_method\<close> is the option \<^verbatim>\<open>method\<close>).\<close>

record 'f request =
  url :: string
  http_method :: string
  headers :: "(string \<times> string) list"
  cache :: "string option"
  body :: "'f body"

text \<open>
  The \<^verbatim>\<open>Response\<close> of a fetch that resolved; \<open>json\<close> is what \<^verbatim>\<open>response.json()\<close>
  settles to: a rejection (the body is not JSON, the stream broke) or the parsed value.
\<close>

record response =
  ok :: bool
  status :: nat
  statusText :: string
  json :: "thrown + jsval"

datatype fetch_outcome = Rejected thrown | Resolved response

text \<open>
  The global \<^verbatim>\<open>fetch\<close>: a request meets the state \<open>'n\<close> of the network and the server
  behind it, and leaves a new one.
\<close>

type_synonym ('f, 'n) fetch = "'f request \<Rightarrow> 'n \<Rightarrow> fetch_outcome \<times> 'n"

text \<open>
  \<^verbatim>\<open>window.localStorage\<close>: its items, and whether its quota is used up (then
  \<^verbatim>\<open>setItem\<close> throws).
\<close>

record storage =
  items :: "string \<rightharpoonup> json_text"
  quota_exceeded :: bool

text \<open>
  What the functions of lib/api.ts can reach: the local storage (\<open>None\<close> where
  \<^verbatim>\<open>window\<close> is undefined or has no \<^verbatim>\<open>localStorage\<close>) and the network.
\<close>

record 'n world =
  localStorage :: "storage option"
  net :: 'n

definition await_fetch :: "('f, 'n) fetch \<Rightarrow> 'f request \<Rightarrow> 'n world \<Rightarrow> fetch_outcome \<times> 'n world" where
  "await_fetch fetch req w = (case fetch req (net w) of (r, n') \<Rightarrow> (r, w\<lparr>net := n'\<rparr>))"

text \<open>\<^verbatim>\<open>fetch(url)\<close> with no options.\<close>

definition get_request :: "string \<Rightarrow> 'f request" where
  "get_request u = \<lparr>url = u, http_method = ''GET'', headers = [], cache = None, body = NoBody\<rparr>"

section \<open>Local storage helpers (lib/api.ts)\<close>

definition LOCAL_STORAGE_KEY :: string where
  "LOCAL_STORAGE_KEY = ''yabatech-campus-boundaries''"

text \<open>The string a value of \<^verbatim>\<open>JSON.stringify\<close> is stored as.\<close>

fun as_string :: "json_text option \<Rightarrow> json_text" where
  "as_string None = OtherText ''undefined''"
| "as_string (Some t) = t"

definition setItem :: "storage \<Rightarrow> string \<Rightarrow> json_text \<Rightarrow> thrown + storage" where
  "setItem st k v =
     (if quota_exceeded st then Inl (JsError ''QuotaExceededError'')
      else Inr (st\<lparr>items := (items st)(k \<mapsto> v)\<rparr>))"

text \<open>A string is truthy when it is not empty; the text of a JSON value never is.\<close>

fun truthy_string :: "json_text \<Rightarrow> bool" where
  "truthy_string (JsonText v) = True"
| "truthy_string (OtherText s) = (s \<noteq> [])"

fun array_length :: "jsval \<Rightarrow> nat" where
  "array_length (JArr xs) = length xs"
| "array_length _ = 0"

definition saveToLocalStorage :: "jsval \<Rightarrow> 'n world \<Rightarrow> 'n world" where
  "saveToLocalStorage boundaries w =
     (case localStorage w of
        None \<Rightarrow> w
      | Some st \<Rightarrow>
          (case setItem st LOCAL_STORAGE_KEY (as_string (JSON_stringify boundaries)) of
             Inl error \<Rightarrow> w
           | Inr st' \<Rightarrow> w\<lparr>localStorage := Some st'\<rparr>))"

definition loadFromLocalStorage :: "'n world \<Rightarrow> jsval" where
  "loadFromLocalStorage w =
     (case localStorage w of
        None \<Rightarrow> JNull
      | Some st \<Rightarrow>
          (case items st LOCAL_STORAGE_KEY of
             None \<Rightarrow> JNull
           | Some storedData \<Rightarrow>
               if truthy_string storedData then
                 (case JSON_parse storedData of
                    Inl error \<Rightarrow> JNull
                  | Inr parsedData \<Rightarrow>
                      if isArray parsedData \<and> array_length parsedData \<ge> 3 then parsedData
                      else JNull)
               else JNull))"

section \<open>The calls of lib/api.ts\<close>

text \<open>
  An \<^verbatim>\<open>async\<close> function gives the value its promise is fulfilled with (\<open>Inr\<close>) or
  the value it is rejected with (\<open>Inl\<close>), and the world after it. Console output is
  left out.
\<close>

text \<open>The \<^verbatim>\<open>try\<close> block of \<^verbatim>\<open>loadBoundaries\<close>, from the outcome of its fetch.\<close>

definition loadBoundaries_try :: "fetch_outcome \<Rightarrow> thrown + jsval" where
  "loadBoundaries_try r =
     (case r of
        Rejected error \<Rightarrow> Inl error
      | Resolved response \<Rightarrow>
          if \<not> ok response
          then Inl (JsError (''Failed to load boundaries: '' @ statusText response))
          else (case json response of
                  Inl error \<Rightarrow> Inl error
                | Inr data \<Rightarrow> getProp data ''boundaries''))"

definition loadBoundaries :: "('f, 'n) fetch \<Rightarrow> 'n world \<Rightarrow> (thrown + jsval) \<times> 'n world" where
  "loadBoundaries fetch w =
     (case await_fetch fetch (get_request ''/api/boundaries'') w of
        (r, w') \<Rightarrow>
          (case loadBoundaries_try r of
             Inl error \<Rightarrow> (Inr JNull, w')
           | Inr v \<Rightarrow> (Inr v, w')))"

text \<open>\<^verbatim>\<open>error instanceof Error ? error.message : "Unknown error"\<close>.\<close>

fun error_message :: "thrown \<Rightarrow> string" where
  "error_message (JsError m) = m"
| "error_message (NonError v) = ''Unknown error''"

definition saveBoundaries_request :: "jsval \<Rightarrow> 'f request" where
  "saveBoundaries_request boundaries =
     \<lparr>url = ''/api/boundaries'', http_method = ''POST'',
      headers = [(''Content-Type'', ''application/json'')], cache = None,
      body = TextBody (JSON_stringify (JObj [(''boundaries'', boundaries)]))\<rparr>"

text \<open>The \<^verbatim>\<open>try\<close> block of \<^verbatim>\<open>saveBoundaries\<close>, from the outcome of its fetch.\<close>

definition saveBoundaries_try :: "fetch_outcome \<Rightarrow> thrown + jsval" where
  "saveBoundaries_try r =
     (case r of
        Rejected error \<Rightarrow> Inl error
      | Resolved response \<Rightarrow>
          if \<not> ok response
          then Inl (JsError (''Failed to save boundaries: '' @ statusText response))
          else (case json response of
                  Inl error \<Rightarrow> Inl error
                | Inr data \<Rightarrow>
                    (case getProp data ''message'' of
                       Inl error \<Rightarrow> Inl error
                     | Inr message \<Rightarrow>
                         Inr (if truthy message then message
                              else JStr ''Boundaries saved successfully''))))"

definition saveBoundaries :: "('f, 'n) fetch \<Rightarrow> jsval \<Rightarrow> 'n world \<Rightarrow> (thrown + jsval) \<times> 'n world" where
  "saveBoundaries fetch boundaries w =
     (case await_fetch fetch (saveBoundaries_request boundaries) w of
        (r, w') \<Rightarrow>
          (case saveBoundaries_try r of
             Inl error \<Rightarrow> (Inr (JStr (''Error: '' @ error_message error)), w')
           | Inr v \<Rightarrow> (Inr v, w')))"

definition buildings_request :: "string \<Rightarrow> 'f request" where
  "buildings_request u =
     \<lparr>url = u, http_method = ''GET'', headers = [(''Accept'', ''application/json'')],
      cache = Some ''no-cache'', body = NoBody\<rparr>"

definition loadBuildings_try :: "fetch_outcome \<Rightarrow> thrown + jsval" where
  "loadBuildings_try r =
     (case r of
        Rejected error \<Rightarrow> Inl error
      | Resolved response \<Rightarrow>
          if \<not> ok response
          then Inl (JsError (''Failed to load buildings: '' @ statusText response))
          else json response)"

definition loadBuildings :: "('f, 'n) fetch \<Rightarrow> 'n world \<Rightarrow> (thrown + jsval) \<times> 'n world" where
  "loadBuildings fetch w =
     (case await_fetch fetch (buildings_request ''/api/buildings'') w of
        (r, w') \<Rightarrow>
          (case loadBuildings_try r of
             Inl error \<Rightarrow> (Inr JNull, w')
           | Inr data \<Rightarrow> (Inr data, w')))"

definition loadBuildingBySlug_try :: "fetch_outcome \<Rightarrow> thrown + jsval" where
  "loadBuildingBySlug_try r =
     (case r of
        Rejected error \<Rightarrow> Inl error
      | Resolved response \<Rightarrow>
          if \<not> ok response
          then Inl (JsError (''Failed to load building: '' @ statusText response))
          else json response)"

definition loadBuildingBySlug :: "('f, 'n) fetch \<Rightarrow> string \<Rightarrow> 'n world \<Rightarrow> (thrown + jsval) \<times> 'n world" where
  "loadBuildingBySlug fetch slug w =
     (case await_fetch fetch (buildings_request (''/api/buildings/'' @ slug)) w of
        (r, w') \<Rightarrow>
          (case loadBuildingBySlug_try r of
             Inl error \<Rightarrow> (Inr JNull, w')
           | Inr data \<Rightarrow> (Inr data, w')))"

text \<open>
  \<^verbatim>\<open>process.env.NEXT_PUBLIC_NAVIGATION_API_URL || 'https://navigationbackend.onrender.com'\<close>:
  the variable is unset (\<open>None\<close>) or a string, and the empty string is falsy.
\<close>

definition API_BASE_URL :: "string option \<Rightarrow> string" where
  "API_BASE_URL env =
     (case env of
        None \<Rightarrow> ''https://navigationbackend.onrender.com''
      | Some u \<Rightarrow> if u \<noteq> [] then u else ''https://navigationbackend.onrender.com'')"

definition json_request :: "string \<Rightarrow> string \<Rightarrow> jsval \<Rightarrow> 'f request" where
  "json_request m u v =
     \<lparr>url = u, http_method = m, headers = [(''Content-Type'', ''application/json'')],
      cache = None, body = TextBody (JSON_stringify v)\<rparr>"

definition createBuilding_try :: "fetch_outcome \<Rightarrow> thrown + jsval" where
  "createBuilding_try r =
     (case r of
        Rejected error \<Rightarrow> Inl error
      | Resolved response \<Rightarrow>
          if \<not> ok response
          then Inl (JsError (''Failed to create building: '' @ statusText response))
          else json response)"

definition createBuilding ::
  "string option \<Rightarrow> ('f, 'n) fetch \<Rightarrow> jsval \<Rightarrow> 'n world \<Rightarrow> (thrown + jsval) \<times> 'n world" where
  "createBuilding env fetch buildingData w =
     (case await_fetch fetch
             (json_request ''POST'' (API_BASE_URL env @ ''/buildings/create'') buildingData) w of
        (r, w') \<Rightarrow>
          (case createBuilding_try r of
             Inl error \<Rightarrow> (Inl error, w')
           | Inr data \<Rightarrow> (Inr data, w')))"

definition updateBuilding_try :: "fetch_outcome \<Rightarrow> thrown + jsval" where
  "updateBuilding_try r =
     (case r of
        Rejected error \<Rightarrow> Inl error
      | Resolved response \<Rightarrow>
          if \<not> ok response
          then Inl (JsError (''Failed to update building: '' @ statusText response))
          else json response)"

definition updateBuilding ::
  "string option \<Rightarrow> ('f, 'n) fetch \<Rightarrow> string \<Rightarrow> jsval \<Rightarrow> 'n world \<Rightarrow> (thrown + jsval) \<times> 'n world" where
  "updateBuilding env fetch slug buildingData w =
     (case await_fetch fetch
             (json_request ''PUT'' (API_BASE_URL env @ ''/buildings/'' @ slug) buildingData) w of
        (r, w') \<Rightarrow>
          (case updateBuilding_try r of
             Inl error \<Rightarrow> (Inl error, w')
           | Inr data \<Rightarrow> (Inr data, w')))"

definition upload_request :: "string \<Rightarrow> 'f \<Rightarrow> 'f request" where
  "upload_request slug file =
     \<lparr>url = ''/api/buildings/'' @ slug @ ''/upload'', http_method = ''POST'', headers = [],
      cache = None, body = FormData [(''file'', file)]\<rparr>"

definition uploadBuildingImage_try :: "fetch_outcome \<Rightarrow> thrown + jsval" where
  "uploadBuildingImage_try r =
     (case r of
        Rejected error \<Rightarrow> Inl error
      | Resolved response \<Rightarrow>
          if \<not> ok response
          then Inl (JsError (''Failed to upload image: '' @ statusText response))
          else json response)"

definition uploadBuildingImage ::
  "('f, 'n) fetch \<Rightarrow> string \<Rightarrow> 'f \<Rightarrow> 'n world \<Rightarrow> (thrown + jsval) \<times> 'n world" where
  "uploadBuildingImage fetch slug file w =
     (case await_fetch fetch (upload_request slug file) w of
        (r, w') \<Rightarrow>
          (case uploadBuildingImage_try r of
             Inl error \<Rightarrow> (Inl error, w')
           | Inr data \<Rightarrow> (Inr data, w')))"

section \<open>The calls of lib/api/buildings.ts\<close>

text \<open>
  The \<^verbatim>\<open>try\<close> block of this module's \<^verbatim>\<open>loadBuildings\<close>: the fetch of lib/api.ts's
  function of the same name, then the normalizer.
\<close>

definition buildings_loadBuildings_try :: "fetch_outcome \<Rightarrow> thrown + jsval" where
  "buildings_loadBuildings_try r =
     (case r of
        Rejected error \<Rightarrow> Inl error
      | Resolved response \<Rightarrow>
          if \<not> ok response
          then Inl (JsError (''Failed to load buildings: '' @ statusText response))
          else (case json response of
                  Inl error \<Rightarrow> Inl error
                | Inr data \<Rightarrow> Inr (normalizeBuildings data)))"

text \<open>Its \<^verbatim>\<open>catch\<close> block throws the error again.\<close>

definition buildings_loadBuildings ::
  "('f, 'n) fetch \<Rightarrow> 'n world \<Rightarrow> (thrown + jsval) \<times> 'n world" where
  "buildings_loadBuildings fetch w =
     (case await_fetch fetch (buildings_request ''/api/buildings'') w of
        (r, w') \<Rightarrow>
          (case buildings_loadBuildings_try r of
             Inl error \<Rightarrow> (Inl error, w')
           | Inr v \<Rightarrow> (Inr v, w')))"

definition saveBuildings_try :: "fetch_outcome \<Rightarrow> thrown + jsval" where
  "saveBuildings_try r =
     (case r of
        Rejected error \<Rightarrow> Inl error
      | Resolved response \<Rightarrow>
          if \<not> ok response
          then Inl (JsError (''Failed to save buildings: '' @ statusText response))
          else (case json response of
                  Inl error \<Rightarrow> Inl error
                | Inr data \<Rightarrow>
                    (case getProp data ''message'' of
                       Inl error \<Rightarrow> Inl error
                     | Inr message \<Rightarrow>
                         Inr (if truthy message then message
                              else JStr ''Buildings saved successfully''))))"

definition saveBuildings ::
  "('f, 'n) fetch \<Rightarrow> jsval \<Rightarrow> 'n world \<Rightarrow> (thrown + jsval) \<times> 'n world" where
  "saveBuildings fetch buildings w =
     (case await_fetch fetch (json_request ''POST'' ''/api/buildings'' buildings) w of
        (r, w') \<Rightarrow>
          (case saveBuildings_try r of
             Inl error \<Rightarrow> (Inl error, w')
           | Inr v \<Rightarrow> (Inr v, w')))"

section \<open>\<^verbatim>\<open>getBuildingImageUrl\<close> (lib/api.ts)\<close>

text \<open>\<^verbatim>\<open>s.startsWith(p)\<close>.\<close>

definition startsWith :: "string \<Rightarrow> string \<Rightarrow> bool" where
  "startsWith s p = (take (length p) s = p)"

definition getBuildingImageUrl :: "string option \<Rightarrow> string \<Rightarrow> string" where
  "getBuildingImageUrl env slug =
     (if startsWith slug ''http'' then slug
      else API_BASE_URL env @ ''/buildings/'' @ slug @ ''/image'')"

section \<open>The location picker (the component \<^verbatim>\<open>MapSelector\<close>)\<close>

text \<open>The object \<^verbatim>\<open>{ lat, lng }\<close>.\<close>

record latlng =
  lat :: jsnum
  lng :: jsnum

text \<open>
  Modelled from the spec: the type \<^verbatim>\<open>Building\<close> of lib/types, whose declaration is not
  among the sources: a building has a name, a slug and a \<^verbatim>\<open>coordinates\<close> pair.
\<close>

record building =
  name :: string
  slug :: string
  coordinates :: latlng

text \<open>
  The props of \<^verbatim>\<open>MapSelector\<close>. An \<^verbatim>\<open>initialPosition\<close> is an object: it comes with
  its identity, which is what the dependency list of \<^verbatim>\<open>useEffect\<close> compares. The prop
  \<^verbatim>\<open>onLocationSelect\<close> is the caller's function: its invocations are recorded in the
  state below.
\<close>

record MapSelectorProps =
  initialPosition :: "(nat \<times> latlng) option"
  buildings :: "building list"

text \<open>
  The state of the mounted component: the props of the last render, the state
  \<^verbatim>\<open>position\<close> of \<^verbatim>\<open>LocationMarker\<close>, the state \<^verbatim>\<open>selectedPosition\<close> of
  \<^verbatim>\<open>MapSelector\<close>, the identity of the \<^verbatim>\<open>initialPosition\<close> that
  \<^verbatim>\<open>LocationMarker\<close> received in the last render (\<open>None\<close> for the object literal of
  line 118, which is a new object in every render), the view of the Leaflet map, and the
  arguments of the calls of \<^verbatim>\<open>onLocationSelect\<close> so far.
\<close>

record picker =
  props :: MapSelectorProps
  position :: latlng
  selectedPosition :: latlng
  last_initial :: "nat option"
  center :: latlng
  zoom :: real
  calls :: "latlng list"

text \<open>\<^verbatim>\<open>initialPosition || { lat: 6.51771, lng: 3.37534 }\<close>: the object and its identity.\<close>

definition defaultPosition :: "MapSelectorProps \<Rightarrow> nat option \<times> latlng" where
  "defaultPosition p =
     (case initialPosition p of
        Some (i, v) \<Rightarrow> (Some i, v)
      | None \<Rightarrow> (None, \<lparr>lat = Finite 6.51771, lng = Finite 3.37534\<rparr>))"

text \<open>\<^verbatim>\<open>map.flyTo(target, z)\<close>, by the view it ends in.\<close>

definition flyTo :: "latlng \<Rightarrow> real \<Rightarrow> picker \<Rightarrow> picker" where
  "flyTo target z s = s\<lparr>center := target, zoom := z\<rparr>"

text \<open>
  The effect of \<^verbatim>\<open>LocationMarker\<close>. The \<^verbatim>\<open>initialPosition\<close> it receives is the
  \<^verbatim>\<open>defaultPosition\<close> of \<^verbatim>\<open>MapSelector\<close>, an object, so the test of the effect is
  true.
\<close>

definition LocationMarker_effect :: "latlng \<Rightarrow> picker \<Rightarrow> picker" where
  "LocationMarker_effect initial s = flyTo initial (zoom s) (s\<lparr>position := initial\<rparr>)"

text \<open>
  A render of \<^verbatim>\<open>MapSelector\<close> after the first, with the props \<open>p\<close>: the states keep
  their values, and the effect of \<^verbatim>\<open>LocationMarker\<close> runs when the
  \<^verbatim>\<open>initialPosition\<close> it receives is not the object of the render before.
\<close>

definition render :: "MapSelectorProps \<Rightarrow> picker \<Rightarrow> picker" where
  "render p s =
     (case defaultPosition p of
        (i, d) \<Rightarrow>
          if i = None \<or> i \<noteq> last_initial s
          then LocationMarker_effect d (s\<lparr>props := p, last_initial := i\<rparr>)
          else s\<lparr>props := p\<rparr>)"

text \<open>
  The first render: both states start from \<^verbatim>\<open>defaultPosition\<close>, the map is centred
  there at zoom 17, and the effect runs.
\<close>

definition mount :: "MapSelectorProps \<Rightarrow> picker" where
  "mount p =
     (case defaultPosition p of
        (i, d) \<Rightarrow>
          LocationMarker_effect d
            \<lparr>props = p, position = d, selectedPosition = d, last_initial = i,
             center = d, zoom = 17, calls = []\<rparr>)"

text \<open>\<^verbatim>\<open>handleLocationSelect\<close> of \<^verbatim>\<open>MapSelector\<close>.\<close>

definition handleLocationSelect :: "latlng \<Rightarrow> picker \<Rightarrow> picker" where
  "handleLocationSelect location s =
     s\<lparr>selectedPosition := location, calls := calls s @ [location]\<rparr>"

text \<open>
  The \<^verbatim>\<open>click\<close> handler of \<^verbatim>\<open>LocationMarker\<close>; its \<^verbatim>\<open>onLocationSelect\<close> is
  \<^verbatim>\<open>handleLocationSelect\<close>.
\<close>

definition click :: "latlng \<Rightarrow> picker \<Rightarrow> picker" where
  "click e_latlng s =
     (let newPos = \<lparr>lat = lat e_latlng, lng = lng e_latlng\<rparr>
      in handleLocationSelect newPos (s\<lparr>position := newPos\<rparr>))"

text \<open>
  The \<^verbatim>\<open>onChange\<close> handlers of the two inputs. \<^verbatim>\<open>parseFloat\<close> is a parameter. They
  call the prop \<^verbatim>\<open>onLocationSelect\<close> itself.
\<close>

definition onChange_lat :: "(string \<Rightarrow> jsnum) \<Rightarrow> string \<Rightarrow> picker \<Rightarrow> picker" where
  "onChange_lat parseFloat target_value s =
     (let newLat = parseFloat target_value in
      if \<not> isNaN newLat then
        (let newPos = (selectedPosition s)\<lparr>lat := newLat\<rparr>
         in s\<lparr>selectedPosition := newPos, calls := calls s @ [newPos]\<rparr>)
      else s)"

definition onChange_lng :: "(string \<Rightarrow> jsnum) \<Rightarrow> string \<Rightarrow> picker \<Rightarrow> picker" where
  "onChange_lng parseFloat target_value s =
     (let newLng = parseFloat target_value in
      if \<not> isNaN newLng then
        (let newPos = (selectedPosition s)\<lparr>lng := newLng\<rparr>
         in s\<lparr>selectedPosition := newPos, calls := calls s @ [newPos]\<rparr>)
      else s)"

text \<open>
  What happens to the component: a click on the map, an edit of one of the two inputs,
  or a render by the parent with new props.
\<close>

datatype event = Click latlng | ChangeLat string | ChangeLng string | Props MapSelectorProps

text \<open>
  A handler that set a state (to a new object) is followed by a render with the props
  in force; an edit that is ignored sets none.
\<close>

fun step :: "(string \<Rightarrow> jsnum) \<Rightarrow> picker \<Rightarrow> event \<Rightarrow> picker" where
  "step parseFloat s (Click e_latlng) = render (props s) (click e_latlng s)"
| "step parseFloat s (ChangeLat v) =
     (if isNaN (parseFloat v) then onChange_lat parseFloat v s
      else render (props s) (onChange_lat parseFloat v s))"
| "step parseFloat s (ChangeLng v) =
     (if isNaN (parseFloat v) then onChange_lng parseFloat v s
      else render (props s) (onChange_lng parseFloat v s))"
| "step parseFloat s (Props p) = render p s"

definition run :: "(string \<Rightarrow> jsnum) \<Rightarrow> picker \<Rightarrow> event list \<Rightarrow> picker" where
  "run parseFloat s evs = foldl (step parseFloat) s evs"

text \<open>
  What is on the screen: the marker of \<^verbatim>\<open>LocationMarker\<close>, one marker for each
  building (its key, its position, its opacity), and the values of the two inputs.
\<close>

record screen =
  marker :: latlng
  building_markers :: "(string \<times> (jsnum \<times> jsnum) \<times> real) list"
  latitude_input :: jsnum
  longitude_input :: jsnum

text \<open>The decimal digits of an index, for the key of a building without a name.\<close>

fun digits :: "nat \<Rightarrow> nat \<Rightarrow> string" where
  "digits 0 n = []"
| "digits (Suc fuel) n =
     (if n < 10 then [char_of (48 + n)]
      else digits fuel (n div 10) @ [char_of (48 + n mod 10)])"

definition building_marker :: "building \<times> nat \<Rightarrow> string \<times> (jsnum \<times> jsnum) \<times> real" where
  "building_marker bi =
     (case bi of
        (b, index) \<Rightarrow>
          (if name b \<noteq> [] then name b else ''map-building-'' @ digits (Suc index) index,
           (lat (coordinates b), lng (coordinates b)),
           0.7))"

definition screen_of :: "picker \<Rightarrow> screen" where
  "screen_of s =
     \<lparr>marker = position s,
      building_markers =
        map building_marker (zip (buildings (props s)) [0 ..< length (buildings (props s))]),
      latitude_input = lat (selectedPosition s),
      longitude_input = lng (selectedPosition s)\<rparr>"

text \<open>Two event lists, two props that differ in the buildings only.\<close>

definition without_buildings :: "MapSelectorProps \<Rightarrow> MapSelectorProps" where
  "without_buildings p = p\<lparr>buildings := []\<rparr>"

fun event_without_buildings :: "event \<Rightarrow> event" where
  "event_without_buildings (Props p) = Props (without_buildings p)"
| "event_without_buildings ev = ev"

section \<open>A backend that echoes what was stored\<close>

text \<open>
  Modelled from the spec: the stable backend of the round trip, which is not among the
  sources. Its state is the value it stored. A POST to \<^verbatim>\<open>/api/boundaries\<close> stores the
  \<^verbatim>\<open>boundaries\<close> of the JSON body and answers with \<open>ack\<close>; a GET answers with the
  stored value under the key \<^verbatim>\<open>boundaries\<close>. What it answers reaches the caller as
  JSON text.
\<close>

definition answer :: "bool \<Rightarrow> nat \<Rightarrow> string \<Rightarrow> jsval \<Rightarrow> response" where
  "answer o_k code txt v =
     \<lparr>ok = o_k, status = code, statusText = txt,
      json = (case JSON_stringify v of
                None \<Rightarrow> Inl (JsError ''Unexpected end of JSON input'')
              | Some t \<Rightarrow> JSON_parse t)\<rparr>"

definition echo_backend :: "jsval \<Rightarrow> ('f, jsval) fetch" where
  "echo_backend ack req stored =
     (if url req = ''/api/boundaries'' \<and> http_method req = ''POST'' then
        (case body req of
           TextBody (Some t) \<Rightarrow>
             (case JSON_parse t of
                Inr d \<Rightarrow> (Resolved (answer True 200 ''OK'' ack), member d ''boundaries'')
              | Inl e \<Rightarrow> (Resolved (answer False 400 ''Bad Request'' JNull), stored))
         | _ \<Rightarrow> (Resolved (answer False 400 ''Bad Request'' JNull), stored))
      else if url req = ''/api/boundaries'' \<and> http_method req = ''GET'' then
        (Resolved (answer True 200 ''OK'' (JObj [(''boundaries'', stored)])), stored)
      else (Resolved (answer False 404 ''Not Found'' JNull), stored))"

text \<open>A boundary array: an array of pairs of finite numbers.\<close>

fun coordinate_pair :: "jsval \<Rightarrow> bool" where
  "coordinate_pair (JArr [JNum (Finite x), JNum (Finite y)]) = True"
| "coordinate_pair _ = False"

fun boundary_array :: "jsval \<Rightarrow> bool" where
  "boundary_array (JArr ps) = list_all coordinate_pair ps"
| "boundary_array _ = False"

section \<open>Failing transports\<close>

text \<open>
  The fetch of a call fails: it is rejected, or its response is not ok, or the body of
  the response cannot be read as JSON.
\<close>

fun transport_failed :: "fetch_outcome \<Rightarrow> bool" where
  "transport_failed (Rejected e) = True"
| "transport_failed (Resolved response) = (\<not> ok response \<or> isl (json response))"

section \<open>Concrete inputs\<close>

text \<open>A network that is down, and one that answers every request with one response.\<close>

definition failing_fetch :: "(unit, unit) fetch" where
  "failing_fetch req n = (Rejected (JsError ''Failed to fetch''), n)"

definition answering :: "response \<Rightarrow> (unit, unit) fetch" where
  "answering response req n = (Resolved response, n)"

text \<open>A world without local storage, one whose storage is empty, one that holds a boundary.\<close>

definition offline :: "unit world" where
  "offline = \<lparr>localStorage = None, net = ()\<rparr>"

definition three_points :: jsval where
  "three_points =
     JArr [JArr [JNum (Finite 6.5), JNum (Finite 3.3)],
           JArr [JNum (Finite 6.5), JNum (Finite 3.4)],
           JArr [JNum (Finite 6.6), JNum (Finite 3.3)]]"

definition empty_storage :: "unit world" where
  "empty_storage = \<lparr>localStorage = Some \<lparr>items = Map.empty, quota_exceeded = False\<rparr>, net = ()\<rparr>"

definition stored_world :: "unit world" where
  "stored_world =
     \<lparr>localStorage =
        Some \<lparr>items = [LOCAL_STORAGE_KEY \<mapsto> JsonText three_points], quota_exceeded = False\<rparr>,
      net = ()\<rparr>"

text \<open>Two \<^verbatim>\<open>parseFloat\<close> stand-ins, two props with different positions, a building.\<close>

definition no_parse :: "string \<Rightarrow> jsnum" where
  "no_parse v = NaN"

definition parse_example :: "string \<Rightarrow> jsnum" where
  "parse_example v = (if v = ''6.6'' then Finite 6.6 else NaN)"

definition first_props :: MapSelectorProps where
  "first_props =
     \<lparr>initialPosition = Some (1, \<lparr>lat = Finite 6.5, lng = Finite 3.3\<rparr>), buildings = []\<rparr>"

definition second_props :: MapSelectorProps where
  "second_props =
     \<lparr>initialPosition = Some (2, \<lparr>lat = Finite 6.6, lng = Finite 3.4\<rparr>), buildings = []\<rparr>"

definition library :: building where
  "library = \<lparr>name = ''Library'', slug = ''library'',
              coordinates = \<lparr>lat = Finite 6.518, lng = Finite 3.375\<rparr>\<rparr>"

text \<open>The picker mounted without an initial position.\<close>

definition default_picker :: picker where
  "default_picker = mount \<lparr>initialPosition = None, buildings = []\<rparr>"

text \<open>The state of the picker with the buildings of its props left out.\<close>

definition forget_buildings :: "picker \<Rightarrow> picker" where
  "forget_buildings s = s\<lparr>props := without_buildings (props s)\<rparr>"

section \<open>The normalizer and the image URL\<close>

lemma first_array_buildings:
  "first_array kvs [''buildings'', ''data'', ''results''] =
     (if isArray (member (JObj kvs) ''buildings'') then member (JObj kvs) ''buildings''
      else if isArray (member (JObj kvs) ''data'') then member (JObj kvs) ''data''
      else if isArray (member (JObj kvs) ''results'') then member (JObj kvs) ''results''
      else JArr [])"
  by (auto split: option.splits jsval.splits)

text \<open>
  C1. For every parsed JSON value, the code of the normalizer returns what the
  specification says: the value itself when it is an array; for an object, the first array
  among its \<^verbatim>\<open>buildings\<close>, \<^verbatim>\<open>data\<close> and \<^verbatim>\<open>results\<close> properties, in that order; the
  empty array for everything else (an object with no such array, null, a primitive). The
  normalizer is total: no shape raises an error.
\<close>

theorem normalizeBuildings_spec:
  "normalizeBuildings v = normalizer_spec v"
proof (cases v)
  case (JObj kvs)
  then show ?thesis
    by (simp add: normalizeBuildings_def first_array_buildings del: first_array.simps)
qed (simp_all add: normalizeBuildings_def)

text \<open>The four shapes, the precedence of \<^verbatim>\<open>data\<close> over \<^verbatim>\<open>results\<close>, and the fallbacks.\<close>

theorem normalizeBuildings_spec_witness:
  "normalizeBuildings (JArr [JStr ''a'']) = JArr [JStr ''a'']
   \<and> normalizeBuildings (JObj [(''buildings'', JArr [JStr ''b''])]) = JArr [JStr ''b'']
   \<and> normalizeBuildings (JObj [(''data'', JArr [JStr ''d''])]) = JArr [JStr ''d'']
   \<and> normalizeBuildings (JObj [(''results'', JArr [JStr ''r''])]) = JArr [JStr ''r'']
   \<and> normalizeBuildings
         (JObj [(''results'', JArr [JStr ''r'']), (''data'', JArr [JStr ''d'']),
                (''buildings'', JStr ''none'')]) = JArr [JStr ''d'']
   \<and> normalizeBuildings (JObj []) = JArr []
   \<and> normalizeBuildings JNull = JArr []
   \<and> normalizeBuildings (JNum (Finite 7)) = JArr []"
  using normalizeBuildings_spec [of "JArr [JStr ''a'']"]
    normalizeBuildings_spec [of "JObj [(''buildings'', JArr [JStr ''b''])]"]
    normalizeBuildings_spec [of "JObj [(''data'', JArr [JStr ''d''])]"]
    normalizeBuildings_spec [of "JObj [(''results'', JArr [JStr ''r''])]"]
    normalizeBuildings_spec [of "JObj [(''results'', JArr [JStr ''r'']), (''data'', JArr [JStr ''d'']),
                (''buildings'', JStr ''none'')]"]
    normalizeBuildings_spec [of "JObj []"]
    normalizeBuildings_spec [of JNull]
    normalizeBuildings_spec [of "JNum (Finite 7)"]
  by simp

text \<open>
  C10. A slug that starts with \<^verbatim>\<open>http\<close> is returned unchanged; any other slug gives the
  backend base URL followed by \<^verbatim>\<open>/buildings/\<close>, the slug and \<^verbatim>\<open>/image\<close>. The function
  is total on strings.
\<close>

theorem getBuildingImageUrl_cases:
  "getBuildingImageUrl env s =
     (if prefix ''http'' s then s
      else API_BASE_URL env @ ''/buildings/'' @ s @ ''/image'')"
proof -
  have "startsWith s ''http'' = prefix ''http'' s"
    unfolding startsWith_def prefix_def
    by (metis append_eq_conv_conj)
  then show ?thesis
    by (simp add: getBuildingImageUrl_def)
qed

text \<open>A complete URL, and a slug with the default and with a configured base URL.\<close>

theorem getBuildingImageUrl_cases_witness:
  "getBuildingImageUrl None ''https://cdn.example/lib.png'' = ''https://cdn.example/lib.png''
   \<and> getBuildingImageUrl None ''library'' =
       ''https://navigationbackend.onrender.com/buildings/library/image''
   \<and> getBuildingImageUrl (Some ''http://localhost:8000'') ''library'' =
       ''http://localhost:8000/buildings/library/image''"
  using getBuildingImageUrl_cases [of None "''https://cdn.example/lib.png''"]
    getBuildingImageUrl_cases [of None "''library''"]
    getBuildingImageUrl_cases [of "Some ''http://localhost:8000''" "''library''"]
  by (simp add: API_BASE_URL_def)

section \<open>Failures of the load operations\<close>

lemma await_fetch_fst:
  "fst (await_fetch fetch req w) = fst (fetch req (net w))"
  by (simp add: await_fetch_def split: prod.splits)

lemma await_fetch_storage:
  "localStorage (snd (await_fetch fetch req w)) = localStorage w"
  by (simp add: await_fetch_def split: prod.splits)

lemma loadBoundaries_fst:
  "fst (loadBoundaries fetch w) =
     (case loadBoundaries_try (fst (fetch (get_request ''/api/boundaries'') (net w))) of
        Inl error \<Rightarrow> Inr JNull | Inr v \<Rightarrow> Inr v)"
  by (simp add: loadBoundaries_def await_fetch_def split: prod.splits sum.splits)

lemma loadBuildings_fst:
  "fst (loadBuildings fetch w) =
     (case loadBuildings_try (fst (fetch (buildings_request ''/api/buildings'') (net w))) of
        Inl error \<Rightarrow> Inr JNull | Inr v \<Rightarrow> Inr v)"
  by (simp add: loadBuildings_def await_fetch_def split: prod.splits sum.splits)

lemma loadBuildingBySlug_fst:
  "fst (loadBuildingBySlug fetch sl w) =
     (case loadBuildingBySlug_try (fst (fetch (buildings_request (''/api/buildings/'' @ sl)) (net w))) of
        Inl error \<Rightarrow> Inr JNull | Inr v \<Rightarrow> Inr v)"
  by (simp add: loadBuildingBySlug_def await_fetch_def split: prod.splits sum.splits)

lemma buildings_loadBuildings_fst:
  "fst (buildings_loadBuildings fetch w) =
     buildings_loadBuildings_try (fst (fetch (buildings_request ''/api/buildings'') (net w)))"
  by (simp add: buildings_loadBuildings_def await_fetch_def split: prod.splits sum.splits)

lemma createBuilding_fst:
  "fst (createBuilding env fetch d w) =
     createBuilding_try (fst (fetch (json_request ''POST'' (API_BASE_URL env @ ''/buildings/create'') d) (net w)))"
  by (simp add: createBuilding_def await_fetch_def split: prod.splits sum.splits)

lemma updateBuilding_fst:
  "fst (updateBuilding env fetch sl d w) =
     updateBuilding_try (fst (fetch (json_request ''PUT'' (API_BASE_URL env @ ''/buildings/'' @ sl) d) (net w)))"
  by (simp add: updateBuilding_def await_fetch_def split: prod.splits sum.splits)

lemma uploadBuildingImage_fst:
  "fst (uploadBuildingImage fetch sl f w) =
     uploadBuildingImage_try (fst (fetch (upload_request sl f) (net w)))"
  by (simp add: uploadBuildingImage_def await_fetch_def split: prod.splits sum.splits)

lemma saveBuildings_fst:
  "fst (saveBuildings fetch bs w) =
     saveBuildings_try (fst (fetch (json_request ''POST'' ''/api/buildings'' bs) (net w)))"
  by (simp add: saveBuildings_def await_fetch_def split: prod.splits sum.splits)

lemma saveBoundaries_fst:
  "fst (saveBoundaries fetch b w) =
     (case saveBoundaries_try (fst (fetch (saveBoundaries_request b) (net w))) of
        Inl error \<Rightarrow> Inr (JStr (''Error: '' @ error_message error)) | Inr v \<Rightarrow> Inr v)"
  by (simp add: saveBoundaries_def await_fetch_def split: prod.splits sum.splits)

lemma failed_loadBoundaries_try: "transport_failed r \<Longrightarrow> isl (loadBoundaries_try r)"
  by (cases r) (auto simp: loadBoundaries_try_def split: sum.splits)

lemma failed_loadBuildings_try: "transport_failed r \<Longrightarrow> isl (loadBuildings_try r)"
  by (cases r) (auto simp: loadBuildings_try_def split: sum.splits)

lemma failed_loadBuildingBySlug_try: "transport_failed r \<Longrightarrow> isl (loadBuildingBySlug_try r)"
  by (cases r) (auto simp: loadBuildingBySlug_try_def split: sum.splits)

lemma failed_buildings_loadBuildings_try:
  "transport_failed r \<Longrightarrow> isl (buildings_loadBuildings_try r)"
  by (cases r) (auto simp: buildings_loadBuildings_try_def split: sum.splits)

lemma failed_createBuilding_try: "transport_failed r \<Longrightarrow> isl (createBuilding_try r)"
  by (cases r) (auto simp: createBuilding_try_def split: sum.splits)

lemma failed_updateBuilding_try: "transport_failed r \<Longrightarrow> isl (updateBuilding_try r)"
  by (cases r) (auto simp: updateBuilding_try_def split: sum.splits)

lemma failed_uploadBuildingImage_try: "transport_failed r \<Longrightarrow> isl (uploadBuildingImage_try r)"
  by (cases r) (auto simp: uploadBuildingImage_try_def split: sum.splits)

lemma failed_saveBuildings_try: "transport_failed r \<Longrightarrow> isl (saveBuildings_try r)"
  by (cases r) (auto simp: saveBuildings_try_def split: sum.splits)

lemma isl_case_null: "isl x \<Longrightarrow> (case x of Inl e \<Rightarrow> Inr JNull | Inr v \<Rightarrow> Inr v) = (Inr JNull :: thrown + jsval)"
  by (cases x) auto

text \<open>
  C2, as the code has it. When every fetch fails (it is rejected, its response is not ok, or
  the body cannot be read), \<^verbatim>\<open>loadBoundaries\<close>, \<^verbatim>\<open>loadBuildings\<close> and
  \<^verbatim>\<open>loadBuildingBySlug\<close> of lib/api.ts are fulfilled with \<^verbatim>\<open>null\<close>. The
  \<^verbatim>\<open>loadBuildings\<close> of lib/api/buildings.ts is rejected with the error it caught, as are
  \<^verbatim>\<open>saveBuildings\<close>, \<^verbatim>\<open>createBuilding\<close>, \<^verbatim>\<open>updateBuilding\<close> and
  \<^verbatim>\<open>uploadBuildingImage\<close>.
\<close>

theorem load_failures:
  assumes "\<forall>req. transport_failed (fst (fetch req (net w)))"
  shows "fst (loadBoundaries fetch w) = Inr JNull
       \<and> fst (loadBuildings fetch w) = Inr JNull
       \<and> fst (loadBuildingBySlug fetch sl w) = Inr JNull
       \<and> isl (fst (buildings_loadBuildings fetch w))
       \<and> isl (fst (saveBuildings fetch bs w))
       \<and> isl (fst (createBuilding env fetch d w))
       \<and> isl (fst (updateBuilding env fetch sl d w))
       \<and> isl (fst (uploadBuildingImage fetch sl f w))"
  using assms
  by (simp add: loadBoundaries_fst loadBuildings_fst loadBuildingBySlug_fst
      buildings_loadBuildings_fst createBuilding_fst updateBuilding_fst
      uploadBuildingImage_fst saveBuildings_fst isl_case_null
      failed_loadBoundaries_try failed_loadBuildings_try failed_loadBuildingBySlug_try
      failed_buildings_loadBuildings_try failed_createBuilding_try failed_updateBuilding_try
      failed_uploadBuildingImage_try failed_saveBuildings_try)

text \<open>The network is down: the three loads of lib/api.ts give \<^verbatim>\<open>null\<close>, the others reject.\<close>

theorem load_failures_witness:
  "fst (loadBoundaries failing_fetch offline) = Inr JNull
   \<and> fst (loadBuildings failing_fetch offline) = Inr JNull
   \<and> fst (loadBuildingBySlug failing_fetch ''library'' offline) = Inr JNull
   \<and> isl (fst (buildings_loadBuildings failing_fetch offline))
   \<and> isl (fst (saveBuildings failing_fetch (JArr []) offline))
   \<and> isl (fst (createBuilding None failing_fetch (JObj []) offline))
   \<and> isl (fst (updateBuilding None failing_fetch ''library'' (JObj []) offline))
   \<and> isl (fst (uploadBuildingImage failing_fetch ''library'' () offline))"
proof -
  have "\<forall>req. transport_failed (fst (failing_fetch req (net offline)))"
    by (simp add: failing_fetch_def)
  then show ?thesis
    by (rule load_failures)
qed

text \<open>
  C2 as stated fails: with the network down, the \<^verbatim>\<open>loadBuildings\<close> of
  lib/api/buildings.ts is a load operation that is rejected with the error of the fetch; it
  is not fulfilled with \<^verbatim>\<open>null\<close>.
\<close>

theorem buildings_loadBuildings_rethrows:
  "fst (buildings_loadBuildings failing_fetch offline) = Inl (JsError ''Failed to fetch'')"
  by (simp add: buildings_loadBuildings_fst failing_fetch_def buildings_loadBuildings_try_def)

section \<open>Local storage is never reached\<close>

lemma loadBoundaries_storage:
  "localStorage (snd (loadBoundaries fetch w)) = localStorage w"
  by (simp add: loadBoundaries_def await_fetch_def split: prod.splits sum.splits)

lemma saveBoundaries_storage:
  "localStorage (snd (saveBoundaries fetch b w)) = localStorage w"
  by (simp add: saveBoundaries_def await_fetch_def split: prod.splits sum.splits)

text \<open>
  C3. The code at a failing input: the network is down and the local storage holds three
  boundary points under the key. \<^verbatim>\<open>loadFromLocalStorage\<close> would deliver them, but
  \<^verbatim>\<open>loadBoundaries\<close> gives \<^verbatim>\<open>null\<close>; \<^verbatim>\<open>saveToLocalStorage\<close> would store a
  boundary, but \<^verbatim>\<open>saveBoundaries\<close> gives the error string and leaves the storage empty.
\<close>

theorem boundaries_no_local_fallback:
  "loadFromLocalStorage stored_world = three_points
   \<and> loadBoundaries failing_fetch stored_world = (Inr JNull, stored_world)
   \<and> saveToLocalStorage three_points empty_storage = stored_world
   \<and> saveBoundaries failing_fetch three_points empty_storage =
       (Inr (JStr ''Error: Failed to fetch''), empty_storage)"
  by (simp add: loadFromLocalStorage_def stored_world_def three_points_def
      loadBoundaries_def await_fetch_def failing_fetch_def get_request_def
      loadBoundaries_try_def saveToLocalStorage_def empty_storage_def setItem_def
      JSON_stringify_def saveBoundaries_def saveBoundaries_try_def)

section \<open>The result of \<^verbatim>\<open>saveBoundaries\<close>\<close>

text \<open>
  C7, as the code has it. \<^verbatim>\<open>saveBoundaries\<close> is never rejected. When its fetch is
  rejected, the response is not ok, the body cannot be read as JSON, or the body is
  \<^verbatim>\<open>null\<close>, it gives a string that starts with \<^verbatim>\<open>Error: \<close>. When the response is ok
  and its body is any other JSON value, it gives the \<^verbatim>\<open>message\<close> of the body if that is
  truthy, and the fixed success string otherwise (the message is missing or falsy).
\<close>

theorem saveBoundaries_cases:
  assumes "fst (fetch (saveBoundaries_request b) (net w)) = r"
  shows "(\<exists>v. fst (saveBoundaries fetch b w) = Inr v)
       \<and> (transport_failed r
            \<or> (\<exists>response. r = Resolved response
                  \<and> (json response = Inr JNull \<or> json response = Inr JUndefined))
            \<longrightarrow> (\<exists>m. fst (saveBoundaries fetch b w) = Inr (JStr (''Error: '' @ m))))
       \<and> (\<forall>response data.
             r = Resolved response \<and> ok response \<and> json response = Inr data
               \<and> data \<noteq> JNull \<and> data \<noteq> JUndefined
             \<longrightarrow> fst (saveBoundaries fetch b w) =
                   Inr (if truthy (member data ''message'') then member data ''message''
                        else JStr ''Boundaries saved successfully''))"
proof (intro conjI allI impI)
  show "\<exists>v. fst (saveBoundaries fetch b w) = Inr v"
    by (simp add: saveBoundaries_fst split: sum.splits)
next
  assume "transport_failed r
            \<or> (\<exists>response. r = Resolved response
                  \<and> (json response = Inr JNull \<or> json response = Inr JUndefined))"
  then have "isl (saveBoundaries_try r)"
    by (cases r) (auto simp: saveBoundaries_try_def split: sum.splits)
  then show "\<exists>m. fst (saveBoundaries fetch b w) = Inr (JStr (''Error: '' @ m))"
    using assms by (cases "saveBoundaries_try r") (auto simp: saveBoundaries_fst)
next
  fix response data
  assume a: "r = Resolved response \<and> ok response \<and> json response = Inr data
               \<and> data \<noteq> JNull \<and> data \<noteq> JUndefined"
  then have "getProp data ''message'' = Inr (member data ''message'')"
    by (cases data) auto
  with a show "fst (saveBoundaries fetch b w) =
                   Inr (if truthy (member data ''message'') then member data ''message''
                        else JStr ''Boundaries saved successfully'')"
    using assms by (simp add: saveBoundaries_fst saveBoundaries_try_def)
qed

text \<open>
  The network is down; an ok response carries a message; an ok response carries none.
\<close>

theorem saveBoundaries_cases_witness:
  "(\<exists>m. fst (saveBoundaries failing_fetch three_points offline) = Inr (JStr (''Error: '' @ m)))
   \<and> fst (saveBoundaries
            (answering \<lparr>ok = True, status = 200, statusText = ''OK'',
                        json = Inr (JObj [(''message'', JStr ''Saved'')])\<rparr>)
            three_points offline) = Inr (JStr ''Saved'')
   \<and> fst (saveBoundaries
            (answering \<lparr>ok = True, status = 200, statusText = ''OK'', json = Inr (JObj [])\<rparr>)
            three_points offline) = Inr (JStr ''Boundaries saved successfully'')"
  using saveBoundaries_cases [of failing_fetch three_points offline
          "Rejected (JsError ''Failed to fetch'')"]
        saveBoundaries_cases [of "answering \<lparr>ok = True, status = 200, statusText = ''OK'',
                        json = Inr (JObj [(''message'', JStr ''Saved'')])\<rparr>" three_points offline
          "Resolved \<lparr>ok = True, status = 200, statusText = ''OK'',
                        json = Inr (JObj [(''message'', JStr ''Saved'')])\<rparr>"]
        saveBoundaries_cases [of "answering \<lparr>ok = True, status = 200, statusText = ''OK'',
                        json = Inr (JObj [])\<rparr>" three_points offline
          "Resolved \<lparr>ok = True, status = 200, statusText = ''OK'', json = Inr (JObj [])\<rparr>"]
  by (simp add: failing_fetch_def answering_def)

text \<open>
  C7 as stated fails on ok responses: one whose body is not JSON gives an error string,
  and one whose \<^verbatim>\<open>message\<close> is the empty string gives the fixed success string, not the
  message.
\<close>

theorem saveBoundaries_ok_response_counterexample:
  "fst (saveBoundaries
          (answering \<lparr>ok = True, status = 200, statusText = ''OK'',
                      json = Inl (JsError ''Unexpected end of JSON input'')\<rparr>)
          three_points offline) = Inr (JStr ''Error: Unexpected end of JSON input'')
   \<and> fst (saveBoundaries
          (answering \<lparr>ok = True, status = 200, statusText = ''OK'',
                      json = Inr (JObj [(''message'', JStr [])])\<rparr>)
          three_points offline) = Inr (JStr ''Boundaries saved successfully'')"
  by (simp add: saveBoundaries_fst saveBoundaries_try_def answering_def)

section \<open>The round trip of a boundary\<close>

lemma jsonify_coordinate_pair: "coordinate_pair p \<Longrightarrow> jsonify p = p \<and> p \<noteq> JUndefined"
  by (induction p rule: coordinate_pair.induct) auto

lemma jsonify_elems_pairs: "list_all coordinate_pair ps \<Longrightarrow> jsonify_elems ps = ps"
  by (induction ps) (auto simp: jsonify_coordinate_pair)

lemma jsonify_boundary_array: "boundary_array b \<Longrightarrow> jsonify b = b \<and> b \<noteq> JUndefined"
  by (cases b) (auto simp: jsonify_elems_pairs)

text \<open>
  C8. Against the echoing backend, for every boundary array \<open>b\<close> (an array of pairs of
  finite numbers), \<^verbatim>\<open>saveBoundaries(b)\<close> followed by \<^verbatim>\<open>loadBoundaries()\<close> gives
  exactly \<open>b\<close>: the request carries \<open>b\<close> under the key \<^verbatim>\<open>boundaries\<close>, and the load
  returns the \<^verbatim>\<open>boundaries\<close> of the response.
\<close>

theorem boundaries_round_trip:
  assumes "boundary_array b"
  shows "fst (loadBoundaries (echo_backend ack) (snd (saveBoundaries (echo_backend ack) b w)))
           = Inr b"
proof -
  have b: "jsonify b = b" "b \<noteq> JUndefined"
    using assms by (simp_all add: jsonify_boundary_array)
  have stored: "net (snd (saveBoundaries (echo_backend ack) b w)) = b"
    using b
    by (simp add: saveBoundaries_def await_fetch_def saveBoundaries_request_def
        echo_backend_def JSON_stringify_def split: prod.splits sum.splits)
  show ?thesis
    using b
    by (simp add: loadBoundaries_def await_fetch_def get_request_def echo_backend_def
        stored answer_def JSON_stringify_def loadBoundaries_try_def
        split: prod.splits sum.splits)
qed

text \<open>The three points of the specification's example make the round trip.\<close>

theorem boundaries_round_trip_witness:
  "boundary_array three_points
   \<and> fst (loadBoundaries (echo_backend (JObj []))
            (snd (saveBoundaries (echo_backend (JObj [])) three_points
                   \<lparr>localStorage = None, net = JNull\<rparr>))) = Inr three_points"
proof -
  have h: "boundary_array three_points"
    by (simp add: three_points_def)
  show ?thesis
    using h boundaries_round_trip [OF h] by simp
qed

section \<open>The location picker\<close>

lemma render_selectedPosition [simp]: "selectedPosition (render p s) = selectedPosition s"
  by (simp add: render_def LocationMarker_effect_def flyTo_def split: prod.splits)

lemma render_calls [simp]: "calls (render p s) = calls s"
  by (simp add: render_def LocationMarker_effect_def flyTo_def split: prod.splits)

lemma render_zoom [simp]: "zoom (render p s) = zoom s"
  by (simp add: render_def LocationMarker_effect_def flyTo_def split: prod.splits)

lemma render_new_object:
  "initialPosition p = Some (i, v) \<Longrightarrow> last_initial s \<noteq> Some i \<Longrightarrow>
     position (render p s) = v \<and> center (render p s) = v"
  by (auto simp add: render_def defaultPosition_def LocationMarker_effect_def flyTo_def)

text \<open>
  C4. The code at a failing input: the component is mounted with the position (6.5, 3.3),
  then rendered with a new \<^verbatim>\<open>initialPosition\<close> object (6.6, 3.4). The marker and the
  centre of the map move to the new position and the zoom stays 17, but the state
  \<^verbatim>\<open>selectedPosition\<close> and the two inputs still hold (6.5, 3.3).
\<close>

theorem prop_change_leaves_inputs:
  "position (step no_parse (mount first_props) (Props second_props)) = \<lparr>lat = Finite 6.6, lng = Finite 3.4\<rparr>
   \<and> center (step no_parse (mount first_props) (Props second_props)) = \<lparr>lat = Finite 6.6, lng = Finite 3.4\<rparr>
   \<and> zoom (step no_parse (mount first_props) (Props second_props)) = 17
   \<and> selectedPosition (step no_parse (mount first_props) (Props second_props)) = \<lparr>lat = Finite 6.5, lng = Finite 3.3\<rparr>
   \<and> screen_of (step no_parse (mount first_props) (Props second_props)) =
       \<lparr>marker = \<lparr>lat = Finite 6.6, lng = Finite 3.4\<rparr>, building_markers = [],
        latitude_input = Finite 6.5, longitude_input = Finite 3.3\<rparr>"
  by (simp add: mount_def render_def defaultPosition_def first_props_def second_props_def
      LocationMarker_effect_def flyTo_def screen_of_def)

lemma step_click_selected: "selectedPosition (step pf s (Click c)) = c"
  by (simp add: click_def handleLocationSelect_def Let_def)

lemma step_click_calls: "calls (step pf s (Click c)) = calls s @ [c]"
  by (simp add: click_def handleLocationSelect_def Let_def)

lemma run_clicks:
  "calls (run pf s (map Click cs)) = calls s @ cs
   \<and> selectedPosition (run pf s (map Click cs)) = last (selectedPosition s # cs)"
proof (induction cs arbitrary: s)
  case Nil
  then show ?case by (simp add: run_def)
next
  case (Cons c cs)
  have "run pf s (map Click (c # cs)) = run pf (step pf s (Click c)) (map Click cs)"
    by (simp add: run_def)
  then show ?case
    using Cons [of "step pf s (Click c)"]
    by (simp add: step_click_selected step_click_calls del: step.simps)
qed

lemma calls_mount: "calls (mount p) = []"
  by (simp add: mount_def LocationMarker_effect_def flyTo_def split: prod.splits)

text \<open>
  The calls of clicks. After any sequence of clicks on the mounted component, the calls
  of \<^verbatim>\<open>onLocationSelect\<close> are exactly the clicked coordinates, in the order of the
  clicks, and the state \<^verbatim>\<open>selectedPosition\<close> is the last of them. In any state, the
  handler of a click sets the marker's \<^verbatim>\<open>position\<close> to the clicked coordinate; the
  render that follows can change it again.
\<close>

lemma clicks_reported:
  "calls (run pf (mount p) (map Click cs)) = cs
   \<and> selectedPosition (run pf (mount p) (map Click cs)) = last (selectedPosition (mount p) # cs)
   \<and> selectedPosition (step pf s (Click c)) = c
   \<and> calls (step pf s (Click c)) = calls s @ [c]
   \<and> position (click c s) = c"
  using run_clicks [of pf "mount p" cs]
  by (simp add: calls_mount step_click_selected step_click_calls del: step.simps)
     (simp add: click_def handleLocationSelect_def Let_def)

text \<open>Clicks at (6.50, 3.30) and then (6.55, 3.35): two calls, in that order.\<close>

lemma clicks_reported_example:
  "calls (run no_parse (mount first_props)
            (map Click [\<lparr>lat = Finite 6.50, lng = Finite 3.30\<rparr>,
                        \<lparr>lat = Finite 6.55, lng = Finite 3.35\<rparr>]))
     = [\<lparr>lat = Finite 6.50, lng = Finite 3.30\<rparr>, \<lparr>lat = Finite 6.55, lng = Finite 3.35\<rparr>]
   \<and> selectedPosition (run no_parse (mount first_props)
            (map Click [\<lparr>lat = Finite 6.50, lng = Finite 3.30\<rparr>,
                        \<lparr>lat = Finite 6.55, lng = Finite 3.35\<rparr>]))
     = \<lparr>lat = Finite 6.55, lng = Finite 3.35\<rparr>"
  using clicks_reported [of no_parse first_props
      "[\<lparr>lat = Finite 6.50, lng = Finite 3.30\<rparr>, \<lparr>lat = Finite 6.55, lng = Finite 3.35\<rparr>]"]
  by simp

text \<open>
  C5. The code at a failing input: the component is mounted without an
  \<^verbatim>\<open>initialPosition\<close> and the map is clicked at (6.55, 3.35). The click makes one call
  of \<^verbatim>\<open>onLocationSelect\<close> with the clicked coordinate, which becomes
  \<^verbatim>\<open>selectedPosition\<close>, and its handler sets the marker's \<^verbatim>\<open>position\<close> to it. The
  render that the click causes passes a new default object to \<^verbatim>\<open>LocationMarker\<close>, so
  its effect runs again: the marker and the centre of the map go back to the default
  (6.51771, 3.37534), while the two inputs show the click.
\<close>

theorem click_marker_reset:
  "selectedPosition (step no_parse default_picker (Click \<lparr>lat = Finite 6.55, lng = Finite 3.35\<rparr>))
     = \<lparr>lat = Finite 6.55, lng = Finite 3.35\<rparr>
   \<and> calls (step no_parse default_picker (Click \<lparr>lat = Finite 6.55, lng = Finite 3.35\<rparr>))
     = [\<lparr>lat = Finite 6.55, lng = Finite 3.35\<rparr>]
   \<and> position (click \<lparr>lat = Finite 6.55, lng = Finite 3.35\<rparr> default_picker)
     = \<lparr>lat = Finite 6.55, lng = Finite 3.35\<rparr>
   \<and> position (step no_parse default_picker (Click \<lparr>lat = Finite 6.55, lng = Finite 3.35\<rparr>))
     = \<lparr>lat = Finite 6.51771, lng = Finite 3.37534\<rparr>
   \<and> center (step no_parse default_picker (Click \<lparr>lat = Finite 6.55, lng = Finite 3.35\<rparr>))
     = \<lparr>lat = Finite 6.51771, lng = Finite 3.37534\<rparr>
   \<and> screen_of (step no_parse default_picker (Click \<lparr>lat = Finite 6.55, lng = Finite 3.35\<rparr>))
     = \<lparr>marker = \<lparr>lat = Finite 6.51771, lng = Finite 3.37534\<rparr>, building_markers = [],
        latitude_input = Finite 6.55, longitude_input = Finite 3.35\<rparr>"
  by (simp add: default_picker_def mount_def render_def defaultPosition_def
      LocationMarker_effect_def flyTo_def click_def handleLocationSelect_def screen_of_def
      Let_def)



lemma defaultPosition_without [simp]: "defaultPosition (without_buildings p) = defaultPosition p"
  by (simp add: defaultPosition_def without_buildings_def)

lemma without_without [simp]: "without_buildings (without_buildings p) = without_buildings p"
  by (simp add: without_buildings_def)

lemma forget_mount: "forget_buildings (mount p) = mount (without_buildings p)"
  by (simp add: forget_buildings_def mount_def LocationMarker_effect_def flyTo_def
      split: prod.splits)

lemma forget_render:
  "forget_buildings (render p s) = render (without_buildings p) (forget_buildings s)"
  by (auto simp add: forget_buildings_def render_def LocationMarker_effect_def flyTo_def
      split: prod.splits)

lemma forget_step:
  "forget_buildings (step pf s ev) = step pf (forget_buildings s) (event_without_buildings ev)"
proof (cases ev)
  case (Click c)
  have "forget_buildings (click c s) = click c (forget_buildings s)"
    by (simp add: forget_buildings_def click_def handleLocationSelect_def Let_def)
  moreover have "props (forget_buildings s) = without_buildings (props s)"
    by (simp add: forget_buildings_def)
  ultimately show ?thesis
    using Click by (simp add: forget_render)
next
  case (ChangeLat v)
  have "forget_buildings (onChange_lat pf v s) = onChange_lat pf v (forget_buildings s)"
    by (simp add: forget_buildings_def onChange_lat_def Let_def)
  moreover have "props (forget_buildings s) = without_buildings (props s)"
    by (simp add: forget_buildings_def)
  ultimately show ?thesis
    using ChangeLat by (simp add: forget_render)
next
  case (ChangeLng v)
  have "forget_buildings (onChange_lng pf v s) = onChange_lng pf v (forget_buildings s)"
    by (simp add: forget_buildings_def onChange_lng_def Let_def)
  moreover have "props (forget_buildings s) = without_buildings (props s)"
    by (simp add: forget_buildings_def)
  ultimately show ?thesis
    using ChangeLng by (simp add: forget_render)
next
  case (Props p)
  then show ?thesis by (simp add: forget_render)
qed

lemma forget_run:
  "forget_buildings (run pf s evs) =
     run pf (forget_buildings s) (map event_without_buildings evs)"
proof (induction evs arbitrary: s)
  case Nil
  then show ?case by (simp add: run_def)
next
  case (Cons ev evs)
  have "run pf s (ev # evs) = run pf (step pf s ev) evs"
    by (simp add: run_def)
  moreover have "run pf (forget_buildings s) (map event_without_buildings (ev # evs)) =
      run pf (step pf (forget_buildings s) (event_without_buildings ev))
        (map event_without_buildings evs)"
    by (simp add: run_def)
  ultimately show ?case
    using Cons [of "step pf s ev"] by (simp only: forget_step)
qed

text \<open>
  C9. Two runs of the component whose props (at the mount and at every later render)
  differ in the buildings only, under the same clicks and edits, end with the same
  \<^verbatim>\<open>selectedPosition\<close>, the same calls of \<^verbatim>\<open>onLocationSelect\<close> and the same marker
  \<^verbatim>\<open>position\<close>.
\<close>

theorem buildings_do_not_interfere:
  assumes "without_buildings p = without_buildings p'"
    and "map event_without_buildings evs = map event_without_buildings evs'"
  shows "selectedPosition (run pf (mount p) evs) = selectedPosition (run pf (mount p') evs')
       \<and> calls (run pf (mount p) evs) = calls (run pf (mount p') evs')
       \<and> position (run pf (mount p) evs) = position (run pf (mount p') evs')"
proof -
  have "forget_buildings (run pf (mount p) evs) = forget_buildings (run pf (mount p') evs')"
    using assms by (simp add: forget_run forget_mount)
  moreover have "\<And>s. selectedPosition (forget_buildings s) = selectedPosition s
      \<and> calls (forget_buildings s) = calls s \<and> position (forget_buildings s) = position s"
    by (simp add: forget_buildings_def)
  ultimately show ?thesis
    by metis
qed

text \<open>A run without buildings and a run with some, under a click, an edit and a render.\<close>

theorem buildings_do_not_interfere_witness:
  "selectedPosition (run parse_example (mount first_props)
       [Click \<lparr>lat = Finite 6.55, lng = Finite 3.35\<rparr>, ChangeLat ''6.6'', Props second_props])
     = selectedPosition (run parse_example (mount (first_props\<lparr>buildings := [library]\<rparr>))
       [Click \<lparr>lat = Finite 6.55, lng = Finite 3.35\<rparr>, ChangeLat ''6.6'',
        Props (second_props\<lparr>buildings := [library, library]\<rparr>)])
   \<and> calls (run parse_example (mount first_props)
       [Click \<lparr>lat = Finite 6.55, lng = Finite 3.35\<rparr>, ChangeLat ''6.6'', Props second_props])
     = calls (run parse_example (mount (first_props\<lparr>buildings := [library]\<rparr>))
       [Click \<lparr>lat = Finite 6.55, lng = Finite 3.35\<rparr>, ChangeLat ''6.6'',
        Props (second_props\<lparr>buildings := [library, library]\<rparr>)])"
proof -
  have h1: "without_buildings first_props = without_buildings (first_props\<lparr>buildings := [library]\<rparr>)"
    by (simp add: without_buildings_def)
  have h2: "map event_without_buildings
       [Click \<lparr>lat = Finite 6.55, lng = Finite 3.35\<rparr>, ChangeLat ''6.6'', Props second_props]
     = map event_without_buildings
       [Click \<lparr>lat = Finite 6.55, lng = Finite 3.35\<rparr>, ChangeLat ''6.6'',
        Props (second_props\<lparr>buildings := [library, library]\<rparr>)]"
    by (simp add: without_buildings_def)
  show ?thesis
    using buildings_do_not_interfere [OF h1 h2, of parse_example] by simp
qed

end
